theory Spec2Isabelle
  imports Main
begin

section \<open>The page: elements, jQuery collections, status objects\<close>

text \<open>
  \<^verbatim>\<open>mlondiem-ss.js\<close> defines one class, \<^verbatim>\<open>SmartStatus\<close>, on top of jQuery. An
  instance owns four jQuery collections (\<^verbatim>\<open>_dom_self.wrapper\<close>, \<^verbatim>\<open>spinner\<close>,
  \<^verbatim>\<open>banner\<close>, \<^verbatim>\<open>close_btn\<close>); the instances are tracked in the global table
  \<^verbatim>\<open>window._smart_statuses\<close>.

  The elements the class creates live in a store indexed by address, so that two status
  objects can refer to the same element. An element records what the class reads or
  writes: its tag, the tokens of its \<^verbatim>\<open>class\<close> attribute, its \<^verbatim>\<open>data-id\<close> attribute,
  its content as \<^verbatim>\<open>.html()\<close> reports it (the serialised markup; the class reads and writes
  the content of message spans only, which have no element children in the store), its
  parent element, the two inline style properties \<^verbatim>\<open>attach\<close> sets, whether the click
  handler of the constructor is bound to it, and the fade animations requested on it, in
  order. An element whose \<open>parent\<close> is \<open>None\<close> is either a child of \<^verbatim>\<open>document.body\<close>
  (then it is listed in \<open>body\<close>) or detached; the children of an element are kept in the
  order of their addresses, which is the order in which the constructor appends them.

  The store holds the elements the class builds. The page's own elements enter as targets
  only; the page is taken to have no \<^verbatim>\<open>div\<close> of its own with a \<^verbatim>\<open>data-id\<close> attribute.
\<close>

type_synonym eid = nat
type_synonym wid = nat

datatype speed = Slow | Millis int

datatype fx = FadeIn speed | FadeOut speed

record elem =
  tag :: string
  classes :: "string list"
  data_id :: "string option"
  html :: string
  parent :: "eid option"
  css_left :: "string option"
  css_top :: "string option"
  on_click :: bool
  fx_log :: "fx list"

text \<open>The object \<^verbatim>\<open>_dom_self\<close> of an instance: four jQuery collections.\<close>

record widget =
  wrapper :: "eid list"
  spinner :: "eid list"
  banner :: "eid list"
  close_btn :: "eid list"

record state =
  elems :: "eid \<Rightarrow> elem"
  next_eid :: eid
  body :: "eid list"
  widgets :: "wid \<Rightarrow> widget"
  next_wid :: wid
  registry :: "string \<Rightarrow> wid option"
  console :: "string list"
  body_fx :: "fx list"

text \<open>
  The target of \<^verbatim>\<open>attach\<close>: omitted (or any falsy value), the element
  \<^verbatim>\<open>document.body\<close>, or a jQuery collection of page elements. Of a page element the
  method reads the \<^verbatim>\<open>id\<close> attribute (absent, or a string) and two computed style
  properties.
\<close>

record telem =
  t_id :: "string option"
  t_left :: string
  t_bottom :: string

datatype target = Omitted | DocBody | JQ "telem list"

text \<open>What a call hands back: the instance, \<^verbatim>\<open>false\<close>, or an exception.\<close>

datatype result = Widget wid | RetFalse | Thrown

text \<open>The page before any status exists: \<^verbatim>\<open>window._smart_statuses = []\<close>.\<close>

definition blank :: elem where
  "blank = \<lparr>tag = [], classes = [], data_id = None, html = [], parent = None,
            css_left = None, css_top = None, on_click = False, fx_log = []\<rparr>"

definition init :: state where
  "init = \<lparr>elems = (\<lambda>_. blank), next_eid = 0, body = [],
           widgets = (\<lambda>_. \<lparr>wrapper = [], spinner = [], banner = [], close_btn = []\<rparr>),
           next_wid = 0, registry = (\<lambda>_. None), console = [], body_fx = []\<rparr>"

subsection \<open>jQuery operations used by the class\<close>

text \<open>A setter acts on every element of the collection.\<close>

definition upd_elems :: "eid list \<Rightarrow> (elem \<Rightarrow> elem) \<Rightarrow> state \<Rightarrow> state" where
  "upd_elems xs f st =
     st\<lparr>elems := (\<lambda>e. if e \<in> set xs then f (elems st e) else elems st e)\<rparr>"

text \<open>
  A getter reads the first element and yields \<^verbatim>\<open>undefined\<close> (\<open>None\<close>) on an empty
  collection; \<^verbatim>\<open>.attr(name)\<close> also yields \<^verbatim>\<open>undefined\<close> when the attribute is absent.
\<close>

definition attr_data_id :: "eid list \<Rightarrow> state \<Rightarrow> string option" where
  "attr_data_id xs st = (case xs of [] \<Rightarrow> None | e # _ \<Rightarrow> data_id (elems st e))"

definition attr_id :: "telem list \<Rightarrow> string option" where
  "attr_id tes = (case tes of [] \<Rightarrow> None | te # _ \<Rightarrow> t_id te)"

definition html_get :: "eid list \<Rightarrow> state \<Rightarrow> string option" where
  "html_get xs st = (case xs of [] \<Rightarrow> None | e # _ \<Rightarrow> Some (html (elems st e)))"

text \<open>
  \<^verbatim>\<open>.html(v)\<close> hands the string \<open>v\<close> to the browser, which parses it as markup; what the
  element holds afterwards, and what \<^verbatim>\<open>.html()\<close> reports, is the serialisation of the parsed
  nodes. A string of printable ASCII without \<^verbatim>\<open><\<close>, in which every \<^verbatim>\<open>&\<close> is followed by a
  blank or ends the string, is parsed into one text node holding that string (such a
  \<^verbatim>\<open>&\<close> starts no character reference), and the serialisation of a text node writes
  \<^verbatim>\<open>&amp;\<close> for \<^verbatim>\<open>&\<close> and \<^verbatim>\<open>&gt;\<close> for \<^verbatim>\<open>>\<close>: \<^verbatim>\<open>a & b\<close> is reported as \<^verbatim>\<open>a &amp; b\<close>. Plain
  text, that is printable ASCII without \<^verbatim>\<open><\<close>, \<^verbatim>\<open>>\<close> and \<^verbatim>\<open>&\<close>, is reported as it was
  written. For any other string (character references; markup, which adds elements the
  store does not hold, as in \<^verbatim>\<open><b>x\<close>, reported as \<^verbatim>\<open><b>x</b>\<close>) the stored content is left
  open: \<open>reparse\<close> says nothing about it. With \<^verbatim>\<open>undefined\<close> as argument \<^verbatim>\<open>.html\<close> is the
  getter and writes nothing.
\<close>

definition printable :: "char \<Rightarrow> bool" where
  "printable c = (32 \<le> (of_char c :: nat) \<and> (of_char c :: nat) < 127)"

definition plain :: "string \<Rightarrow> bool" where
  "plain s =
     list_all (\<lambda>c. printable c \<and> c \<noteq> CHR ''<'' \<and> c \<noteq> CHR ''>'' \<and> c \<noteq> CHR ''&'') s"

fun text_only :: "string \<Rightarrow> bool" where
  "text_only [] = True"
| "text_only (c # cs) =
     (printable c \<and> c \<noteq> CHR ''<'' \<and>
      (if c = CHR ''&'' then (case cs of [] \<Rightarrow> True | d # _ \<Rightarrow> d = CHR '' '') else True) \<and>
      text_only cs)"

definition escape :: "string \<Rightarrow> string" where
  "escape s =
     concat (map (\<lambda>c. if c = CHR ''&'' then ''&amp;''
                       else if c = CHR ''>'' then ''&gt;'' else [c]) s)"

definition reparse :: "string \<Rightarrow> string" where
  "reparse s = (if text_only s then escape s else undefined s)"

definition html_set :: "eid list \<Rightarrow> string option \<Rightarrow> state \<Rightarrow> state" where
  "html_set xs v st =
     (case v of None \<Rightarrow> st | Some s \<Rightarrow> upd_elems xs (\<lambda>el. el\<lparr>html := reparse s\<rparr>) st)"

definition remove_class :: "string \<Rightarrow> eid list \<Rightarrow> state \<Rightarrow> state" where
  "remove_class c xs st =
     upd_elems xs (\<lambda>el. el\<lparr>classes := filter (\<lambda>k. k \<noteq> c) (classes el)\<rparr>) st"

definition add_class :: "string \<Rightarrow> eid list \<Rightarrow> state \<Rightarrow> state" where
  "add_class c xs st =
     upd_elems xs
       (\<lambda>el. if c \<in> set (classes el) then el else el\<lparr>classes := classes el @ [c]\<rparr>) st"

definition fade :: "fx \<Rightarrow> eid list \<Rightarrow> state \<Rightarrow> state" where
  "fade a xs st = upd_elems xs (\<lambda>el. el\<lparr>fx_log := fx_log el @ [a]\<rparr>) st"

text \<open>
  The children of an element; an element with all that lies below it, in document order
  (the depth is bounded by the number of elements); the elements of the document; and
  what lies below an element, at any depth.
\<close>

definition children :: "state \<Rightarrow> eid \<Rightarrow> eid list" where
  "children st p = filter (\<lambda>c. parent (elems st c) = Some p) [0..<next_eid st]"

fun subtree :: "nat \<Rightarrow> state \<Rightarrow> eid \<Rightarrow> eid list" where
  "subtree 0 st p = [p]"
| "subtree (Suc n) st p = p # concat (map (subtree n st) (children st p))"

definition document :: "state \<Rightarrow> eid list" where
  "document st = concat (map (subtree (next_eid st) st) (body st))"

definition descendants :: "state \<Rightarrow> eid \<Rightarrow> eid list" where
  "descendants st p = tl (subtree (next_eid st) st p)"

text \<open>
  \<^verbatim>\<open>.appendTo(document.body)\<close> moves each element to the end of the body;
  \<^verbatim>\<open>.remove()\<close> takes each element out of the document and, unlike \<^verbatim>\<open>.detach()\<close>,
  unbinds the event handlers of the element and of its descendants.
\<close>

definition append_to_body :: "eid list \<Rightarrow> state \<Rightarrow> state" where
  "append_to_body xs st =
     (upd_elems xs (\<lambda>el. el\<lparr>parent := None\<rparr>) st)
       \<lparr>body := fold (\<lambda>e b. removeAll e b @ [e]) xs (body st)\<rparr>"

definition jq_remove :: "eid list \<Rightarrow> state \<Rightarrow> state" where
  "jq_remove xs st =
     (let st1 = upd_elems (concat (map (descendants st) xs)) (\<lambda>el. el\<lparr>on_click := False\<rparr>) st;
          st2 = upd_elems xs (\<lambda>el. el\<lparr>parent := None, on_click := False\<rparr>) st1
      in st2\<lparr>body := filter (\<lambda>e. e \<notin> set xs) (body st2)\<rparr>)"

text \<open>
  \<^verbatim>\<open>attach\<close> builds the selector \<^verbatim>\<open>'div[data-id="' + use_id + '"]'\<close> by concatenation. For a
  key of printable ASCII without double quote and backslash this is the test that the
  \<^verbatim>\<open>data-id\<close> attribute equals the key, and on a page whose contents are plain text the
  \<^verbatim>\<open>div\<close> elements of the document are those of the store: the result is \<open>divs_with\<close>. A
  double quote in the key ends the quoted value early. When the first one comes after
  characters of that kind and is followed by a letter other than \<^verbatim>\<open>i\<close> and \<^verbatim>\<open>s\<close> (the
  flags an attribute selector admits there), the string is no selector and jQuery throws a
  syntax error: the result is \<open>None\<close>. For the remaining keys the string selects by some
  other pattern or is refused as well, and markup in a message can add a matching \<^verbatim>\<open>div\<close>
  the store does not hold; in those cases \<open>select_div\<close> leaves the result open.
\<close>

definition selector_safe :: "string \<Rightarrow> bool" where
  "selector_safe k = list_all (\<lambda>c. printable c \<and> c \<noteq> CHR 0x22 \<and> c \<noteq> CHR 0x5C) k"

definition letter :: "char \<Rightarrow> bool" where
  "letter c =
     ((65 \<le> (of_char c :: nat) \<and> (of_char c :: nat) \<le> 90) \<or>
      (97 \<le> (of_char c :: nat) \<and> (of_char c :: nat) \<le> 122))"

fun refused :: "string \<Rightarrow> bool" where
  "refused [] = False"
| "refused (c # cs) =
     (if c = CHR 0x22 then
        (case cs of
           [] \<Rightarrow> False
         | d # _ \<Rightarrow> letter d \<and> d \<noteq> CHR ''i'' \<and> d \<noteq> CHR ''I'' \<and> d \<noteq> CHR ''s'' \<and> d \<noteq> CHR ''S'')
      else if printable c \<and> c \<noteq> CHR 0x5C then refused cs
      else False)"

definition plain_page :: "state \<Rightarrow> bool" where
  "plain_page st = list_all (\<lambda>e. plain (html (elems st e))) (document st)"

definition divs_with :: "string \<Rightarrow> state \<Rightarrow> eid list" where
  "divs_with k st =
     filter (\<lambda>e. tag (elems st e) = ''div'' \<and> data_id (elems st e) = Some k) (document st)"

definition select_div :: "string \<Rightarrow> state \<Rightarrow> eid list option" where
  "select_div k st =
     (if refused k then None
      else if selector_safe k \<and> plain_page st then Some (divs_with k st)
      else undefined k st)"

text \<open>
  \<^verbatim>\<open>.find('span.c')\<close> yields the \<^verbatim>\<open>span\<close> elements of class \<open>c\<close> that lie below the elements of
  a collection, at any depth and without repetition. When the contents of these elements
  and of all that lies below them are plain text, they are the spans of the store
  (\<open>spans_below\<close>); markup in a message can add spans the store does not hold, and then
  \<open>find_span\<close> leaves the result open.
\<close>

definition plain_below :: "eid list \<Rightarrow> state \<Rightarrow> bool" where
  "plain_below ws st =
     list_all (\<lambda>e. plain (html (elems st e))) (concat (map (subtree (next_eid st) st) ws))"

definition spans_below :: "string \<Rightarrow> eid list \<Rightarrow> state \<Rightarrow> eid list" where
  "spans_below c ws st =
     rev (remdups (rev
       (filter (\<lambda>e. tag (elems st e) = ''span'' \<and> c \<in> set (classes (elems st e)))
          (concat (map (descendants st) ws)))))"

definition find_span :: "string \<Rightarrow> eid list \<Rightarrow> state \<Rightarrow> eid list" where
  "find_span c ws st = (if plain_below ws st then spans_below c ws st else undefined c ws st)"

text \<open>String concatenation turns \<^verbatim>\<open>undefined\<close> into the text \<^verbatim>\<open>undefined\<close>; so does a property key.\<close>

definition js_str :: "string option \<Rightarrow> string" where
  "js_str v = (case v of None \<Rightarrow> ''undefined'' | Some s \<Rightarrow> s)"

definition log_error :: "string \<Rightarrow> state \<Rightarrow> state" where
  "log_error m st = st\<lparr>console := console st @ [m]\<rparr>"

section \<open>The class\<close>

text \<open>
  \<^verbatim>\<open>SmartStatus.prototype.find\<close>: the registered instance, or \<^verbatim>\<open>false\<close> (\<open>None\<close>).
  The keys the class stores are \<^verbatim>\<open>'smart-' + id\<close> and the page-level key.
\<close>

definition find_status :: "string \<Rightarrow> state \<Rightarrow> wid option" where
  "find_status k st = registry st k"

text \<open>The accessor \<^verbatim>\<open>msg\<close>.\<close>

definition msg :: "wid \<Rightarrow> state \<Rightarrow> string option" where
  "msg this st = html_get (banner (widgets st this)) st"

definition set_msg :: "wid \<Rightarrow> string option \<Rightarrow> state \<Rightarrow> state" where
  "set_msg this v st = html_set (banner (widgets st this)) v st"

text \<open>
  \<^verbatim>\<open>destroy\<close> removes the container and then deletes the registry entry whose key is the
  \<^verbatim>\<open>data-id\<close> that \<^verbatim>\<open>wrapper.attr('data-id')\<close> reads at that moment.
\<close>

definition destroy :: "wid \<Rightarrow> state \<Rightarrow> state" where
  "destroy this st =
     (let st1 = jq_remove (wrapper (widgets st this)) st;
          k = js_str (attr_data_id (wrapper (widgets st1 this)) st1)
      in st1\<lparr>registry := (registry st1)(k := None)\<rparr>)"

text \<open>
  \<^verbatim>\<open>attach(target, overwrite)\<close>, branch by branch as in the source. A jQuery collection is
  truthy and is not \<^verbatim>\<open>document.body\<close>, so it takes the first branch. There the identifier is
  compared with the empty string only; an absent identifier goes on and is concatenated as
  the text \<^verbatim>\<open>undefined\<close>. With the key free, \<^verbatim>\<open>getComputedStyle(target[0])\<close> is evaluated
  before anything is written and throws on an empty collection. With the key in use and
  \<^verbatim>\<open>overwrite\<close> set, a selector that jQuery refuses throws before anything is written. The
  diagnostics of \<^verbatim>\<open>console.error\<close> are appended to \<open>console\<close>.
\<close>

definition sentinel :: string where
  "sentinel = ''_global_smart_status_''"

definition attach :: "wid \<Rightarrow> target \<Rightarrow> bool \<Rightarrow> state \<Rightarrow> result \<times> state" where
  "attach this target overwrite st =
     (case target of
        JQ tes \<Rightarrow>
          (let target_id = attr_id tes in
           if target_id = Some [] then
             (RetFalse, destroy this (log_error ''SmartStatus cannot use target with no id'' st))
           else
             let use_id = ''smart-'' @ js_str target_id in
             if find_status use_id st = None then
               (case tes of
                  [] \<Rightarrow> (Thrown, st)
                | te # _ \<Rightarrow>
                    let w = wrapper (widgets st this);
                        st1 = upd_elems w
                                (\<lambda>el. el\<lparr>css_left := Some (t_left te),
                                          css_top := Some (t_bottom te)\<rparr>) st;
                        st2 = append_to_body w st1;
                        st3 = upd_elems w (\<lambda>el. el\<lparr>data_id := Some use_id\<rparr>) st2
                    in (Widget this, st3\<lparr>registry := (registry st3)(use_id \<mapsto> this)\<rparr>))
             else if overwrite then
               let restore_msg = msg this st in
               (case select_div use_id st of
                  None \<Rightarrow> (Thrown, st)
                | Some w \<Rightarrow>
                    let st1 = st\<lparr>widgets := (widgets st)(this :=
                                \<lparr>wrapper = w,
                                 spinner = find_span ''fa-spinner'' w st,
                                 banner = find_span ''smart-status-msg'' w st,
                                 close_btn = find_span ''close'' w st\<rparr>)\<rparr>;
                        st2 = set_msg this restore_msg st1
                    in (Widget this, st2\<lparr>registry := (registry st2)(use_id \<mapsto> this)\<rparr>))
             else
               (RetFalse, log_error ''Cannot attach new SmartStatus on used target'' st))
      | _ \<Rightarrow>
          if find_status sentinel st = None then
            let w = wrapper (widgets st this);
                st1 = upd_elems w (\<lambda>el. el\<lparr>data_id := Some sentinel\<rparr>) st;
                st2 = append_to_body w st1
            in (Widget this, st2\<lparr>registry := (registry st2)(sentinel \<mapsto> this)\<rparr>)
          else
            (RetFalse, log_error ''Cannot attach new SmartStatus on used global target'' st))"

definition reset :: "wid \<Rightarrow> state \<Rightarrow> result \<times> state" where
  "reset this st =
     (let st1 = set_msg this (Some ''Loading...'') st;
          st2 = upd_elems (spinner (widgets st1 this))
                  (\<lambda>el. el\<lparr>classes := [''fa'', ''fa-spinner'', ''fa-spin'']\<rparr>) st1
      in (Widget this, st2))"

text \<open>A text is truthy unless it is absent or empty.\<close>

definition truthy :: "string option \<Rightarrow> bool" where
  "truthy v = (case v of None \<Rightarrow> False | Some s \<Rightarrow> s \<noteq> [])"

definition show_status :: "wid \<Rightarrow> string option \<Rightarrow> state \<Rightarrow> result \<times> state" where
  "show_status this txt st =
     (let st1 = (if truthy txt then set_msg this txt st else st);
          st2 = fade (FadeIn Slow) (wrapper (widgets st1 this)) st1
      in (Widget this, st2))"

text \<open>\<^verbatim>\<open>duration ? duration : 1500\<close>: an absent duration and the number 0 are falsy.\<close>

definition hide_duration :: "int option \<Rightarrow> int" where
  "hide_duration duration =
     (case duration of None \<Rightarrow> 1500 | Some d \<Rightarrow> if d = 0 then 1500 else d)"

definition hide :: "wid \<Rightarrow> int option \<Rightarrow> state \<Rightarrow> result \<times> state" where
  "hide this duration st =
     (Widget this,
      fade (FadeOut (Millis (hide_duration duration))) (wrapper (widgets st this)) st)"

text \<open>\<^verbatim>\<open>final(txt, success)\<close>; an omitted \<^verbatim>\<open>success\<close> is falsy, that is \<open>False\<close>.\<close>

definition final :: "wid \<Rightarrow> string \<Rightarrow> bool \<Rightarrow> state \<Rightarrow> result \<times> state" where
  "final this txt success st =
     (let st1 = remove_class ''fa-spin''
                  (spinner (widgets st this))
                  (remove_class ''fa-spinner'' (spinner (widgets st this)) st);
          st2 = html_set (banner (widgets st1 this)) (Some txt) st1;
          st3 = (if success then add_class ''fa-check'' (spinner (widgets st2 this)) st2
                 else add_class ''fa-exclamation-triangle'' (spinner (widgets st2 this)) st2)
      in (Widget this, st3))"

text \<open>
  The constructor builds the four elements, appends the three spans to the container,
  binds the click handler to the close control, then sets the message and attaches when
  the arguments are truthy. It ignores what \<^verbatim>\<open>attach\<close> returns; an exception of
  \<^verbatim>\<open>attach\<close> leaves it.
\<close>

definition new_elems :: "state \<Rightarrow> state" where
  "new_elems st =
     (let n = next_eid st in
      st\<lparr>elems := (elems st)
            (n := blank\<lparr>tag := ''div'', classes := [''smart-status''],
                        data_id := Some ''smart-''\<rparr>,
             n + 1 := blank\<lparr>tag := ''span'', classes := [''fa'', ''fa-spinner'', ''fa-spin''],
                            parent := Some n\<rparr>,
             n + 2 := blank\<lparr>tag := ''span'', classes := [''smart-status-msg''],
                            html := ''Loading...'', parent := Some n\<rparr>,
             n + 3 := blank\<lparr>tag := ''span'', classes := [''fa'', ''fa-times'', ''close''],
                            parent := Some n, on_click := True\<rparr>),
          next_eid := n + 4\<rparr>)"

definition new_status :: "string option \<Rightarrow> target \<Rightarrow> state \<Rightarrow> result \<times> state" where
  "new_status txt target st =
     (let n = next_eid st;
          this = next_wid st;
          st1 = (new_elems st)\<lparr>widgets := (widgets st)(this :=
                   \<lparr>wrapper = [n], spinner = [n + 1], banner = [n + 2], close_btn = [n + 3]\<rparr>),
                 next_wid := this + 1\<rparr>;
          st2 = (if truthy txt then set_msg this txt st1 else st1)
      in if target = Omitted then (Widget this, st2)
         else (case attach this target False st2 of
                 (Thrown, st3) \<Rightarrow> (Thrown, st3)
               | (_, st3) \<Rightarrow> (Widget this, st3)))"

text \<open>
  The handler of the close control, run when the user clicks the element \<open>e\<close>:
  \<^verbatim>\<open>$(this).parent().fadeOut('slow')\<close>. The parent of a child of the body is the body
  itself, a detached element has none. A click on an element without the handler does
  nothing.
\<close>

definition click :: "eid \<Rightarrow> state \<Rightarrow> state" where
  "click e st =
     (if on_click (elems st e) then
        (case parent (elems st e) of
           None \<Rightarrow>
             if e \<in> set (body st) then st\<lparr>body_fx := body_fx st @ [FadeOut Slow]\<rparr> else st
         | Some p \<Rightarrow> fade (FadeOut Slow) [p] st)
      else st)"

section \<open>Concrete pages\<close>

text \<open>
  Pages reached from the empty page by calls of the class, used to evaluate the
  statements below. \<open>btn i\<close> is a jQuery collection holding one page element whose
  \<^verbatim>\<open>id\<close> is \<open>i\<close>; \<open>no_id\<close> holds one element without an \<^verbatim>\<open>id\<close> attribute.

  \<^item> \<open>p0\<close>: \<^verbatim>\<open>A = new SmartStatus('Uploading')\<close> (status 0, elements 0 to 3);
  \<^item> \<open>p1\<close>: then \<^verbatim>\<open>A.attach($('#btn1'))\<close>;
  \<^item> \<open>p2\<close>: then \<^verbatim>\<open>A.attach($('#btn2'))\<close>, which moves the container of \<open>A\<close> to the new key
    and leaves the entry of the old key behind;
  \<^item> \<open>p3\<close>: then \<^verbatim>\<open>B = new SmartStatus('Retrying')\<close> (status 1, elements 4 to 7);
  \<^item> \<open>p4\<close>: then \<^verbatim>\<open>B.attach($('#btn1'), true)\<close>;
  \<^item> \<open>u2\<close>: from \<open>p1\<close>, \<^verbatim>\<open>A.final('Upload failed', false)\<close>;
  \<^item> \<open>u3\<close>: then \<^verbatim>\<open>B = new SmartStatus('Retrying')\<close>;
  \<^item> \<open>u4\<close>: then \<^verbatim>\<open>B.attach($('#btn1'), true)\<close>;
  \<^item> \<open>r2\<close>: from \<open>p1\<close>, \<^verbatim>\<open>A.destroy()\<close>;
  \<^item> \<open>r3\<close>: then \<^verbatim>\<open>A.attach($('#btn1'))\<close> again;
  \<^item> \<open>w1\<close>: from \<open>p1\<close>, \<^verbatim>\<open>B = new SmartStatus('Retrying')\<close>.
\<close>

definition btn :: "string \<Rightarrow> target" where
  "btn i = JQ [\<lparr>t_id = Some i, t_left = ''10px'', t_bottom = ''20px''\<rparr>]"

definition no_id :: target where
  "no_id = JQ [\<lparr>t_id = None, t_left = ''10px'', t_bottom = ''20px''\<rparr>]"

definition p0 :: state where
  "p0 = snd (new_status (Some ''Uploading'') Omitted init)"

definition p1 :: state where
  "p1 = snd (attach 0 (btn ''btn1'') False p0)"

definition p2 :: state where
  "p2 = snd (attach 0 (btn ''btn2'') False p1)"

definition p3 :: state where
  "p3 = snd (new_status (Some ''Retrying'') Omitted p2)"

definition p4 :: state where
  "p4 = snd (attach 1 (btn ''btn1'') True p3)"

definition u2 :: state where
  "u2 = snd (final 0 ''Upload failed'' False p1)"

definition u3 :: state where
  "u3 = snd (new_status (Some ''Retrying'') Omitted u2)"

definition u4 :: state where
  "u4 = snd (attach 1 (btn ''btn1'') True u3)"

definition r2 :: state where
  "r2 = destroy 0 p1"

definition r3 :: state where
  "r3 = snd (attach 0 (btn ''btn1'') False r2)"

definition w1 :: state where
  "w1 = snd (new_status (Some ''Retrying'') Omitted p1)"

text \<open>
  A page element whose \<^verbatim>\<open>id\<close> holds a double quote, \<^verbatim>\<open>a"b\<close>: status 0 attached to it,
  and a second status built.
\<close>

definition quoted :: string where
  "quoted = ''a'' @ CHR 0x22 # ''b''"

definition q1 :: state where
  "q1 = snd (attach 0 (btn quoted) False p0)"

definition q2 :: state where
  "q2 = snd (new_status (Some ''Retrying'') Omitted q1)"

section \<open>What each operation leaves alone and what it writes\<close>

text \<open>
  Selector lemmas: every field of the page after a jQuery operation, in terms of the page
  before it.
\<close>

lemma upd_elems_sel:
  "elems (upd_elems xs f st) e = (if e \<in> set xs then f (elems st e) else elems st e)"
  "body (upd_elems xs f st) = body st"
  "widgets (upd_elems xs f st) = widgets st"
  "registry (upd_elems xs f st) = registry st"
  "next_eid (upd_elems xs f st) = next_eid st"
  "next_wid (upd_elems xs f st) = next_wid st"
  "console (upd_elems xs f st) = console st"
  "body_fx (upd_elems xs f st) = body_fx st"
  by (simp_all add: upd_elems_def)

lemma append_to_body_sel:
  "elems (append_to_body xs st) e =
     (if e \<in> set xs then (elems st e)\<lparr>parent := None\<rparr> else elems st e)"
  "widgets (append_to_body xs st) = widgets st"
  "registry (append_to_body xs st) = registry st"
  "next_eid (append_to_body xs st) = next_eid st"
  "next_wid (append_to_body xs st) = next_wid st"
  by (simp_all add: append_to_body_def upd_elems_sel)

lemma log_error_sel:
  "elems (log_error m st) = elems st"
  "body (log_error m st) = body st"
  "widgets (log_error m st) = widgets st"
  "registry (log_error m st) = registry st"
  "next_eid (log_error m st) = next_eid st"
  "next_wid (log_error m st) = next_wid st"
  by (simp_all add: log_error_def)

lemma fade_sel:
  "elems (fade a xs st) e =
     (if e \<in> set xs then (elems st e)\<lparr>fx_log := fx_log (elems st e) @ [a]\<rparr> else elems st e)"
  "body (fade a xs st) = body st"
  "widgets (fade a xs st) = widgets st"
  "registry (fade a xs st) = registry st"
  "next_eid (fade a xs st) = next_eid st"
  "next_wid (fade a xs st) = next_wid st"
  by (simp_all add: fade_def upd_elems_sel)

lemma plain_text_only: "plain s \<Longrightarrow> text_only s"
  by (induction s) (simp_all add: plain_def)

lemma plain_escape: "plain s \<Longrightarrow> escape s = s"
  by (induction s) (simp_all add: plain_def escape_def)

lemma reparse_plain: "plain s \<Longrightarrow> reparse s = s"
  by (simp add: reparse_def plain_text_only plain_escape)

lemma html_set_sel:
  "elems (html_set xs (Some s) st) e =
     (if e \<in> set xs then (elems st e)\<lparr>html := reparse s\<rparr> else elems st e)"
  "body (html_set xs v st) = body st"
  "widgets (html_set xs v st) = widgets st"
  "registry (html_set xs v st) = registry st"
  "next_eid (html_set xs v st) = next_eid st"
  "next_wid (html_set xs v st) = next_wid st"
  by (simp_all add: html_set_def upd_elems_sel split: option.splits)

lemma html_set_keeps:
  "tag (elems (html_set xs v st) e) = tag (elems st e)"
  "classes (elems (html_set xs v st) e) = classes (elems st e)"
  "data_id (elems (html_set xs v st) e) = data_id (elems st e)"
  "parent (elems (html_set xs v st) e) = parent (elems st e)"
  "on_click (elems (html_set xs v st) e) = on_click (elems st e)"
  "fx_log (elems (html_set xs v st) e) = fx_log (elems st e)"
  by (simp_all add: html_set_def upd_elems_sel split: option.splits)

lemma class_sel:
  "elems (remove_class c xs st) e =
     (if e \<in> set xs then (elems st e)\<lparr>classes := filter (\<lambda>k. k \<noteq> c) (classes (elems st e))\<rparr>
      else elems st e)"
  "widgets (remove_class c xs st) = widgets st"
  "registry (remove_class c xs st) = registry st"
  "body (remove_class c xs st) = body st"
  "elems (add_class c xs st) e =
     (if e \<in> set xs \<and> c \<notin> set (classes (elems st e))
      then (elems st e)\<lparr>classes := classes (elems st e) @ [c]\<rparr> else elems st e)"
  "widgets (add_class c xs st) = widgets st"
  "registry (add_class c xs st) = registry st"
  "body (add_class c xs st) = body st"
  by (simp_all add: remove_class_def add_class_def upd_elems_sel)

lemma jq_remove_sel:
  "body (jq_remove xs st) = filter (\<lambda>e. e \<notin> set xs) (body st)"
  "widgets (jq_remove xs st) = widgets st"
  "registry (jq_remove xs st) = registry st"
  "next_eid (jq_remove xs st) = next_eid st"
  "next_wid (jq_remove xs st) = next_wid st"
  "data_id (elems (jq_remove xs st) e) = data_id (elems st e)"
  "html (elems (jq_remove xs st) e) = html (elems st e)"
  "classes (elems (jq_remove xs st) e) = classes (elems st e)"
  "tag (elems (jq_remove xs st) e) = tag (elems st e)"
  "e \<in> set xs \<Longrightarrow> parent (elems (jq_remove xs st) e) = None"
  by (simp_all add: jq_remove_def Let_def upd_elems_sel)

lemma jq_remove_elems:
  "elems (jq_remove xs st) e =
     (if e \<in> set xs
      then (elems st e)\<lparr>parent := None, on_click := False\<rparr>
      else if e \<in> set (concat (map (descendants st) xs))
      then (elems st e)\<lparr>on_click := False\<rparr>
      else elems st e)"
  by (simp add: jq_remove_def Let_def upd_elems_sel)

lemma new_elems_sel:
  "elems (new_elems st) =
     (elems st)
       (next_eid st := blank\<lparr>tag := ''div'', classes := [''smart-status''],
                        data_id := Some ''smart-''\<rparr>,
        next_eid st + 1 := blank\<lparr>tag := ''span'', classes := [''fa'', ''fa-spinner'', ''fa-spin''],
                            parent := Some (next_eid st)\<rparr>,
        next_eid st + 2 := blank\<lparr>tag := ''span'', classes := [''smart-status-msg''],
                            html := ''Loading...'', parent := Some (next_eid st)\<rparr>,
        next_eid st + 3 := blank\<lparr>tag := ''span'', classes := [''fa'', ''fa-times'', ''close''],
                            parent := Some (next_eid st), on_click := True\<rparr>)"
  "next_eid (new_elems st) = next_eid st + 4"
  "body (new_elems st) = body st"
  "widgets (new_elems st) = widgets st"
  "registry (new_elems st) = registry st"
  "next_wid (new_elems st) = next_wid st"
  by (simp_all add: new_elems_def Let_def)

text \<open>
  What lies below an element depends on the parent pointers only, and every element
  below another one has a parent.
\<close>

lemma children_parents:
  assumes "\<And>e. parent (elems st' e) = parent (elems st e)" and "next_eid st' = next_eid st"
  shows "children st' p = children st p"
  using assms by (simp add: children_def)

lemma subtree_parents:
  assumes "\<And>e. parent (elems st' e) = parent (elems st e)" and "next_eid st' = next_eid st"
  shows "subtree n st' p = subtree n st p"
proof (induction n arbitrary: p)
  case 0
  show ?case by simp
next
  case (Suc n)
  have "children st' p = children st p"
    using assms by (rule children_parents)
  moreover have "subtree n st' = subtree n st"
    by (rule ext) (rule Suc.IH)
  ultimately show ?case by simp
qed

lemma document_parents:
  assumes "\<And>e. parent (elems st' e) = parent (elems st e)" and "next_eid st' = next_eid st"
      and "body st' = body st"
  shows "document st' = document st"
proof -
  have "subtree (next_eid st) st' = subtree (next_eid st) st"
    by (rule ext) (rule subtree_parents [OF assms(1,2)])
  then show ?thesis
    by (simp add: document_def assms(2,3))
qed

lemma in_subtree:
  "e \<in> set (subtree n st p) \<Longrightarrow> e = p \<or> parent (elems st e) \<noteq> None"
proof (induction n arbitrary: p)
  case 0
  then show ?case by simp
next
  case (Suc n)
  show ?case
  proof (cases "e = p")
    case True
    then show ?thesis by simp
  next
    case False
    with Suc.prems obtain c where c: "c \<in> set (children st p)" "e \<in> set (subtree n st c)"
      by auto
    from Suc.IH [OF c(2)] c(1) show ?thesis
      by (auto simp: children_def)
  qed
qed

text \<open>
  A container taken out by \<^verbatim>\<open>.remove()\<close> is no element of the document any more.
\<close>

lemma removed_not_in_document:
  assumes "a \<in> set xs"
  shows "a \<notin> set (document (jq_remove xs st))"
proof
  assume "a \<in> set (document (jq_remove xs st))"
  then obtain b where b: "b \<in> set (body (jq_remove xs st))"
      "a \<in> set (subtree (next_eid (jq_remove xs st)) (jq_remove xs st) b)"
    by (auto simp: document_def)
  from b(1) assms have "a \<noteq> b"
    by (auto simp: jq_remove_sel)
  moreover have "parent (elems (jq_remove xs st) a) = None"
    using assms by (simp add: jq_remove_sel)
  ultimately show False
    using in_subtree [OF b(2)] by simp
qed

text \<open>
  \<^verbatim>\<open>destroy\<close> deletes the entry whose key is the \<^verbatim>\<open>data-id\<close> of the first element of
  the container collection (the key \<^verbatim>\<open>undefined\<close> when there is none).
\<close>

lemma destroy_registry:
  "registry (destroy w st) =
     (registry st)(js_str (attr_data_id (wrapper (widgets st w)) st) := None)"
  by (simp add: destroy_def Let_def jq_remove_sel attr_data_id_def split: list.splits)

lemma destroy_sel:
  "body (destroy w st) = filter (\<lambda>e. e \<notin> set (wrapper (widgets st w))) (body st)"
  "widgets (destroy w st) = widgets st"
  "elems (destroy w st) = elems (jq_remove (wrapper (widgets st w)) st)"
  "next_eid (destroy w st) = next_eid st"
  "next_wid (destroy w st) = next_wid st"
  by (simp_all add: destroy_def Let_def jq_remove_sel)

lemma destroy_not_in_document:
  assumes "a \<in> set (wrapper (widgets st w))"
  shows "a \<notin> set (document (destroy w st))"
proof -
  have "document (destroy w st) = document (jq_remove (wrapper (widgets st w)) st)"
    by (rule document_parents) (simp_all add: destroy_sel jq_remove_sel)
  with removed_not_in_document [OF assms] show ?thesis by simp
qed

text \<open>
  \<^verbatim>\<open>final\<close>, the click handler and the constructor without a target.
\<close>

lemma final_elems:
  "elems (snd (final w t ok st)) e =
     elems (add_class (if ok then ''fa-check'' else ''fa-exclamation-triangle'')
              (spinner (widgets st w))
              (html_set (banner (widgets st w)) (Some t)
                 (remove_class ''fa-spin'' (spinner (widgets st w))
                    (remove_class ''fa-spinner'' (spinner (widgets st w)) st)))) e"
  "widgets (snd (final w t ok st)) = widgets st"
  "registry (snd (final w t ok st)) = registry st"
  "body (snd (final w t ok st)) = body st"
  "fst (final w t ok st) = Widget w"
  by (simp_all add: final_def Let_def class_sel html_set_sel)

text \<open>
  What \<^verbatim>\<open>final\<close> writes: the plain text \<open>t\<close> into the message spans of the status, and into
  the class list of each element of its spinner reference the icon of the outcome in place
  of \<^verbatim>\<open>fa-spinner\<close> and \<^verbatim>\<open>fa-spin\<close>.
\<close>

lemma final_writes:
  assumes "plain t"
  shows "fst (final w t ok st) = Widget w"
    and "banner (widgets st w) \<noteq> [] \<Longrightarrow> msg w (snd (final w t ok st)) = Some t"
    and "e \<in> set (spinner (widgets st w)) \<Longrightarrow>
         classes (elems (snd (final w t ok st)) e) =
           (let cs = filter (\<lambda>k. k \<noteq> ''fa-spin'')
                       (filter (\<lambda>k. k \<noteq> ''fa-spinner'') (classes (elems st e)));
                icon = (if ok then ''fa-check'' else ''fa-exclamation-triangle'')
            in if icon \<in> set cs then cs else cs @ [icon])"
proof -
  show "fst (final w t ok st) = Widget w"
    by (simp add: final_def Let_def)
  show "msg w (snd (final w t ok st)) = Some t" if nb: "banner (widgets st w) \<noteq> []"
  proof -
    obtain b bs where b: "banner (widgets st w) = b # bs"
      using nb by (cases "banner (widgets st w)") auto
    show ?thesis
      using assms
      by (simp add: msg_def html_get_def final_elems b class_sel html_set_sel reparse_plain)
  qed
  show "classes (elems (snd (final w t ok st)) e) =
           (let cs = filter (\<lambda>k. k \<noteq> ''fa-spin'')
                       (filter (\<lambda>k. k \<noteq> ''fa-spinner'') (classes (elems st e)));
                icon = (if ok then ''fa-check'' else ''fa-exclamation-triangle'')
            in if icon \<in> set cs then cs else cs @ [icon])"
    if "e \<in> set (spinner (widgets st w))"
    using that
    by (simp add: final_elems class_sel html_set_sel html_set_keeps Let_def)
qed

lemma final_next:
  "next_eid (snd (final w t ok st)) = next_eid st"
  "next_wid (snd (final w t ok st)) = next_wid st"
  by (simp_all add: final_def Let_def remove_class_def add_class_def html_set_def upd_elems_sel)

lemma click_sel:
  "registry (click e st) = registry st"
  "widgets (click e st) = widgets st"
  "body (click e st) = body st"
  "next_eid (click e st) = next_eid st"
  "html (elems (click e st) x) = html (elems st x)"
  "classes (elems (click e st) x) = classes (elems st x)"
  "data_id (elems (click e st) x) = data_id (elems st x)"
  "parent (elems (click e st) x) = parent (elems st x)"
  "on_click (elems (click e st) x) = on_click (elems st x)"
  "tag (elems (click e st) x) = tag (elems st x)"
  by (simp_all add: click_def fade_sel split: option.splits)

lemma click_document: "document (click e st) = document st"
  by (rule document_parents) (simp_all add: click_sel)

lemma new_status_detached:
  "new_status txt Omitted st =
     (Widget (next_wid st),
      (if truthy txt then html_set [next_eid st + 2] txt else (\<lambda>s. s))
        ((new_elems st)\<lparr>widgets := (widgets st)(next_wid st :=
            \<lparr>wrapper = [next_eid st], spinner = [next_eid st + 1],
             banner = [next_eid st + 2], close_btn = [next_eid st + 3]\<rparr>),
          next_wid := next_wid st + 1\<rparr>))"
  by (simp add: new_status_def Let_def set_msg_def)

text \<open>
  The branches of \<^verbatim>\<open>attach\<close>, one equation each: a target element whose key is free, a
  key in use without and with \<^verbatim>\<open>overwrite\<close>, an empty identifier, and the page-level
  target with the page-level key free or in use.
\<close>

lemma attach_free:
  assumes "attr_id (te # tes) \<noteq> Some []"
      and "registry st (''smart-'' @ js_str (attr_id (te # tes))) = None"
  shows "attach this (JQ (te # tes)) overwrite st =
     (Widget this,
      (upd_elems (wrapper (widgets st this))
         (\<lambda>el. el\<lparr>data_id := Some (''smart-'' @ js_str (attr_id (te # tes)))\<rparr>)
         (append_to_body (wrapper (widgets st this))
            (upd_elems (wrapper (widgets st this))
               (\<lambda>el. el\<lparr>css_left := Some (t_left te), css_top := Some (t_bottom te)\<rparr>) st)))
        \<lparr>registry := (registry st)(''smart-'' @ js_str (attr_id (te # tes)) \<mapsto> this)\<rparr>)"
  using assms
  by (simp add: attach_def find_status_def Let_def upd_elems_sel append_to_body_sel)

lemma attach_used:
  assumes "attr_id tes \<noteq> Some []"
      and "registry st (''smart-'' @ js_str (attr_id tes)) = Some v"
  shows "attach this (JQ tes) False st =
     (RetFalse, log_error ''Cannot attach new SmartStatus on used target'' st)"
  using assms by (simp add: attach_def find_status_def Let_def)

lemma attach_overwrite:
  assumes "attr_id tes \<noteq> Some []"
      and "registry st (''smart-'' @ js_str (attr_id tes)) = Some v"
  shows "attach this (JQ tes) True st =
     (case select_div (''smart-'' @ js_str (attr_id tes)) st of
        None \<Rightarrow> (Thrown, st)
      | Some ws \<Rightarrow>
          (Widget this,
           (html_set (find_span ''smart-status-msg'' ws st) (msg this st)
              (st\<lparr>widgets := (widgets st)(this :=
                 \<lparr>wrapper = ws,
                  spinner = find_span ''fa-spinner'' ws st,
                  banner = find_span ''smart-status-msg'' ws st,
                  close_btn = find_span ''close'' ws st\<rparr>)\<rparr>))
             \<lparr>registry := (registry st)(''smart-'' @ js_str (attr_id tes) \<mapsto> this)\<rparr>))"
  using assms
  by (simp add: attach_def find_status_def set_msg_def Let_def html_set_sel
           split: option.splits)


lemma select_div_refused: "refused k \<Longrightarrow> select_div k st = None"
  by (simp add: select_div_def)

lemma attach_overwrite_refused:
  assumes "attr_id tes \<noteq> Some []"
      and "registry st (''smart-'' @ js_str (attr_id tes)) = Some v"
      and "refused (''smart-'' @ js_str (attr_id tes))"
  shows "attach this (JQ tes) True st = (Thrown, st)"
  unfolding attach_overwrite [OF assms(1,2)] select_div_refused [OF assms(3)] by simp

lemma attach_empty_id:
  assumes "attr_id tes = Some []"
  shows "fst (attach w (JQ tes) overwrite st) = RetFalse \<and>
         registry (snd (attach w (JQ tes) overwrite st))
           = (registry st)(js_str (attr_data_id (wrapper (widgets st w)) st) := None)"
  using assms
  by (simp add: attach_def destroy_registry log_error_sel log_error_def attr_data_id_def
           split: list.splits)

lemma attach_page_free:
  assumes "target = Omitted \<or> target = DocBody" and "registry st sentinel = None"
  shows "attach this target overwrite st =
     (Widget this,
      (append_to_body (wrapper (widgets st this))
         (upd_elems (wrapper (widgets st this)) (\<lambda>el. el\<lparr>data_id := Some sentinel\<rparr>) st))
        \<lparr>registry := (registry st)(sentinel \<mapsto> this)\<rparr>)"
  using assms
  by (auto simp: attach_def find_status_def Let_def upd_elems_sel append_to_body_sel)

lemma attach_page_used:
  assumes "target = Omitted \<or> target = DocBody" and "registry st sentinel = Some v"
  shows "attach this target overwrite st =
     (RetFalse, log_error ''Cannot attach new SmartStatus on used global target'' st)"
  using assms by (auto simp: attach_def find_status_def)

section \<open>The concrete pages, field by field\<close>

text \<open>
  Evaluation rules for the concrete pages: the rules above, the definitions of the small
  operations, and for each page its elements, body, status objects and registry.
\<close>

lemma upt_from_0: "[0..<numeral n] = 0 # [Suc 0..<numeral n]"
  by (simp add: upt_conv_Cons)

lemma upt_from_1: "[Suc 0..<numeral n] = (if Suc 0 < numeral n then Suc 0 # [2..<numeral n] else [])"
  by (simp add: upt_conv_Cons numeral_2_eq_2)

lemma subtree_numeral:
  "subtree (numeral k) st p = p # concat (map (subtree (pred_numeral k) st) (children st p))"
  by (simp add: numeral_eq_Suc)

lemmas dom_simps = select_div_def selector_safe_def plain_page_def divs_with_def find_span_def
  letter_def
  plain_below_def spans_below_def document_def descendants_def children_def subtree_numeral
  plain_def printable_def upt_from_0 upt_from_1 numeral_2_eq_2[symmetric]

lemmas step_simps = jq_remove_elems final_next upd_elems_sel append_to_body_sel log_error_sel
  fade_sel html_set_sel html_set_keeps jq_remove_sel destroy_sel destroy_registry class_sel
  final_elems click_sel new_elems_sel new_status_detached attach_free attach_used
  attach_overwrite attach_page_free attach_page_used truthy_def attr_id_def js_str_def btn_def
  blank_def msg_def html_get_def attr_data_id_def sentinel_def append_to_body_def click_def
  reparse_def escape_def plain_def printable_def numeral_2_eq_2[symmetric]

lemma p0_facts:
  "elems p0 0 =
     \<lparr>tag = ''div'', classes = [''smart-status''], data_id = Some ''smart-'',
       html = [], parent = None, css_left = None, css_top = None, on_click = False,
       fx_log = []\<rparr>"
  "elems p0 (Suc 0) =
     \<lparr>tag = ''span'', classes = [''fa'', ''fa-spinner'', ''fa-spin''],
       data_id = None, html = [], parent = Some 0, css_left = None, css_top = None,
       on_click = False, fx_log = []\<rparr>"
  "elems p0 2 =
     \<lparr>tag = ''span'', classes = [''smart-status-msg''], data_id = None,
       html = ''Uploading'', parent = Some 0, css_left = None, css_top = None,
       on_click = False, fx_log = []\<rparr>"
  "elems p0 3 =
     \<lparr>tag = ''span'', classes = [''fa'', ''fa-times'', ''close''], data_id = None,
       html = [], parent = Some 0, css_left = None, css_top = None, on_click = True,
       fx_log = []\<rparr>"
  "body p0 = []"
  "widgets p0 =
     (widgets init)
       (0 := \<lparr>wrapper = [0], spinner = [Suc 0], banner = [2], close_btn = [3]\<rparr>)"
  "registry p0 = (\<lambda>_. None)"
  "next_eid p0 = 4"
  "next_wid p0 = Suc 0"
  by (simp_all add: p0_def step_simps init_def )

lemma p1_facts:
  "elems p1 0 =
     \<lparr>tag = ''div'', classes = [''smart-status''], data_id = Some ''smart-btn1'',
       html = [], parent = None, css_left = Some ''10px'', css_top = Some ''20px'',
       on_click = False, fx_log = []\<rparr>"
  "elems p1 (Suc 0) = elems p0 (Suc 0)"
  "elems p1 2 = elems p0 2"
  "elems p1 3 = elems p0 3"
  "body p1 = [0]"
  "widgets p1 = widgets p0"
  "registry p1 = [''smart-btn1'' \<mapsto> 0]"
  "next_eid p1 = 4"
  "next_wid p1 = Suc 0"
  by (simp_all add: p1_def step_simps init_def p0_facts)

lemma p2_facts:
  "elems p2 0 =
     \<lparr>tag = ''div'', classes = [''smart-status''], data_id = Some ''smart-btn2'',
       html = [], parent = None, css_left = Some ''10px'', css_top = Some ''20px'',
       on_click = False, fx_log = []\<rparr>"
  "elems p2 (Suc 0) = elems p1 (Suc 0)"
  "elems p2 2 = elems p1 2"
  "elems p2 3 = elems p1 3"
  "body p2 = [0]"
  "widgets p2 = widgets p1"
  "registry p2 = [''smart-btn1'' \<mapsto> 0, ''smart-btn2'' \<mapsto> 0]"
  "next_eid p2 = 4"
  "next_wid p2 = Suc 0"
  by (simp_all add: p2_def step_simps init_def p1_facts p0_facts)

lemma p3_facts:
  "elems p3 0 = elems p2 0"
  "elems p3 (Suc 0) = elems p2 (Suc 0)"
  "elems p3 2 = elems p2 2"
  "elems p3 3 = elems p2 3"
  "elems p3 4 =
     \<lparr>tag = ''div'', classes = [''smart-status''], data_id = Some ''smart-'',
       html = [], parent = None, css_left = None, css_top = None, on_click = False,
       fx_log = []\<rparr>"
  "elems p3 5 =
     \<lparr>tag = ''span'', classes = [''fa'', ''fa-spinner'', ''fa-spin''],
       data_id = None, html = [], parent = Some 4, css_left = None, css_top = None,
       on_click = False, fx_log = []\<rparr>"
  "elems p3 6 =
     \<lparr>tag = ''span'', classes = [''smart-status-msg''], data_id = None,
       html = ''Retrying'', parent = Some 4, css_left = None, css_top = None,
       on_click = False, fx_log = []\<rparr>"
  "elems p3 7 =
     \<lparr>tag = ''span'', classes = [''fa'', ''fa-times'', ''close''], data_id = None,
       html = [], parent = Some 4, css_left = None, css_top = None, on_click = True,
       fx_log = []\<rparr>"
  "body p3 = [0]"
  "widgets p3 =
     (widgets p2)
       (Suc 0 := \<lparr>wrapper = [4], spinner = [5], banner = [6], close_btn = [7]\<rparr>)"
  "registry p3 = registry p2"
  "next_eid p3 = 8"
  "next_wid p3 = 2"
  by (simp_all add: p3_def step_simps init_def p2_facts p1_facts p0_facts)

lemma p3_dom:
  "select_div ''smart-btn1'' p3 = Some []"
  "find_span ''fa-spinner'' [] p3 = []"
  "find_span ''smart-status-msg'' [] p3 = []"
  "find_span ''close'' [] p3 = []"
  by (simp_all add: dom_simps p3_facts init_def p2_facts p1_facts p0_facts)

lemma p4_facts:
  "elems p4 0 = elems p3 0"
  "elems p4 (Suc 0) = elems p3 (Suc 0)"
  "elems p4 2 = elems p3 2"
  "elems p4 3 = elems p3 3"
  "elems p4 4 = elems p3 4"
  "elems p4 5 = elems p3 5"
  "elems p4 6 = elems p3 6"
  "elems p4 7 = elems p3 7"
  "body p4 = [0]"
  "widgets p4 =
     (widgets p3)
       (Suc 0 := \<lparr>wrapper = [], spinner = [], banner = [], close_btn = []\<rparr>)"
  "registry p4 = [''smart-btn2'' \<mapsto> 0, ''smart-btn1'' \<mapsto> Suc 0]"
  "next_eid p4 = 8"
  "next_wid p4 = 2"
  by (simp_all add: p4_def step_simps init_def p3_dom p3_facts p2_facts p1_facts p0_facts)

lemma u2_facts:
  "elems u2 0 = elems p1 0"
  "elems u2 (Suc 0) =
     \<lparr>tag = ''span'', classes = [''fa'', ''fa-exclamation-triangle''],
       data_id = None, html = [], parent = Some 0, css_left = None, css_top = None,
       on_click = False, fx_log = []\<rparr>"
  "elems u2 2 =
     \<lparr>tag = ''span'', classes = [''smart-status-msg''], data_id = None,
       html = ''Upload failed'', parent = Some 0, css_left = None, css_top = None,
       on_click = False, fx_log = []\<rparr>"
  "elems u2 3 = elems p1 3"
  "body u2 = [0]"
  "widgets u2 = widgets p1"
  "registry u2 = registry p1"
  "next_eid u2 = 4"
  "next_wid u2 = Suc 0"
  by (simp_all add: u2_def step_simps init_def p1_facts p0_facts)

lemma u3_facts:
  "elems u3 0 = elems u2 0"
  "elems u3 (Suc 0) = elems u2 (Suc 0)"
  "elems u3 2 = elems u2 2"
  "elems u3 3 = elems u2 3"
  "elems u3 4 =
     \<lparr>tag = ''div'', classes = [''smart-status''], data_id = Some ''smart-'',
       html = [], parent = None, css_left = None, css_top = None, on_click = False,
       fx_log = []\<rparr>"
  "elems u3 5 =
     \<lparr>tag = ''span'', classes = [''fa'', ''fa-spinner'', ''fa-spin''],
       data_id = None, html = [], parent = Some 4, css_left = None, css_top = None,
       on_click = False, fx_log = []\<rparr>"
  "elems u3 6 =
     \<lparr>tag = ''span'', classes = [''smart-status-msg''], data_id = None,
       html = ''Retrying'', parent = Some 4, css_left = None, css_top = None,
       on_click = False, fx_log = []\<rparr>"
  "elems u3 7 =
     \<lparr>tag = ''span'', classes = [''fa'', ''fa-times'', ''close''], data_id = None,
       html = [], parent = Some 4, css_left = None, css_top = None, on_click = True,
       fx_log = []\<rparr>"
  "body u3 = [0]"
  "widgets u3 =
     (widgets u2)
       (Suc 0 := \<lparr>wrapper = [4], spinner = [5], banner = [6], close_btn = [7]\<rparr>)"
  "registry u3 = registry u2"
  "next_eid u3 = 8"
  "next_wid u3 = 2"
  by (simp_all add: u3_def step_simps init_def u2_facts p1_facts p0_facts)

lemma u3_dom:
  "select_div ''smart-btn1'' u3 = Some [0]"
  "find_span ''fa-spinner'' [0] u3 = []"
  "find_span ''smart-status-msg'' [0] u3 = [2]"
  "find_span ''close'' [0] u3 = [3]"
  by (simp_all add: dom_simps u3_facts init_def u2_facts p1_facts p0_facts)

lemma u4_facts:
  "elems u4 0 = elems u3 0"
  "elems u4 (Suc 0) = elems u3 (Suc 0)"
  "elems u4 2 =
     \<lparr>tag = ''span'', classes = [''smart-status-msg''], data_id = None,
       html = ''Retrying'', parent = Some 0, css_left = None, css_top = None,
       on_click = False, fx_log = []\<rparr>"
  "elems u4 3 = elems u3 3"
  "elems u4 4 = elems u3 4"
  "elems u4 5 = elems u3 5"
  "elems u4 6 = elems u3 6"
  "elems u4 7 = elems u3 7"
  "body u4 = [0]"
  "widgets u4 =
     (widgets u3)
       (Suc 0 := \<lparr>wrapper = [0], spinner = [], banner = [2], close_btn = [3]\<rparr>)"
  "registry u4 = [''smart-btn1'' \<mapsto> Suc 0]"
  "next_eid u4 = 8"
  "next_wid u4 = 2"
  by (simp_all add: u4_def step_simps init_def u3_dom u3_facts u2_facts p1_facts p0_facts)

lemma r2_facts:
  "elems r2 0 = elems p1 0"
  "elems r2 (Suc 0) = elems p1 (Suc 0)"
  "elems r2 2 = elems p1 2"
  "elems r2 3 =
     \<lparr>tag = ''span'', classes = [''fa'', ''fa-times'', ''close''], data_id = None,
       html = [], parent = Some 0, css_left = None, css_top = None, on_click = False,
       fx_log = []\<rparr>"
  "body r2 = []"
  "widgets r2 = widgets p1"
  "registry r2 = (\<lambda>_. None)"
  "next_eid r2 = 4"
  "next_wid r2 = Suc 0"
  by (simp_all add: r2_def step_simps init_def dom_simps p1_facts p0_facts)

lemma r3_facts:
  "elems r3 0 = elems r2 0"
  "elems r3 (Suc 0) = elems r2 (Suc 0)"
  "elems r3 2 = elems r2 2"
  "elems r3 3 = elems r2 3"
  "body r3 = [0]"
  "widgets r3 = widgets r2"
  "registry r3 = [''smart-btn1'' \<mapsto> 0]"
  "next_eid r3 = 4"
  "next_wid r3 = Suc 0"
  by (simp_all add: r3_def step_simps init_def r2_facts p1_facts p0_facts)

lemma w1_facts:
  "elems w1 0 = elems p1 0"
  "elems w1 (Suc 0) = elems p1 (Suc 0)"
  "elems w1 2 = elems p1 2"
  "elems w1 3 = elems p1 3"
  "elems w1 4 =
     \<lparr>tag = ''div'', classes = [''smart-status''], data_id = Some ''smart-'',
       html = [], parent = None, css_left = None, css_top = None, on_click = False,
       fx_log = []\<rparr>"
  "elems w1 5 =
     \<lparr>tag = ''span'', classes = [''fa'', ''fa-spinner'', ''fa-spin''],
       data_id = None, html = [], parent = Some 4, css_left = None, css_top = None,
       on_click = False, fx_log = []\<rparr>"
  "elems w1 6 =
     \<lparr>tag = ''span'', classes = [''smart-status-msg''], data_id = None,
       html = ''Retrying'', parent = Some 4, css_left = None, css_top = None,
       on_click = False, fx_log = []\<rparr>"
  "elems w1 7 =
     \<lparr>tag = ''span'', classes = [''fa'', ''fa-times'', ''close''], data_id = None,
       html = [], parent = Some 4, css_left = None, css_top = None, on_click = True,
       fx_log = []\<rparr>"
  "body w1 = [0]"
  "widgets w1 =
     (widgets p1)
       (Suc 0 := \<lparr>wrapper = [4], spinner = [5], banner = [6], close_btn = [7]\<rparr>)"
  "registry w1 = registry p1"
  "next_eid w1 = 8"
  "next_wid w1 = 2"
  by (simp_all add: w1_def step_simps init_def p1_facts p0_facts)

lemma w1_dom:
  "select_div ''smart-btn1'' w1 = Some [0]"
  "find_span ''fa-spinner'' [0] w1 = [Suc 0]"
  "find_span ''smart-status-msg'' [0] w1 = [2]"
  "find_span ''close'' [0] w1 = [3]"
  by (simp_all add: dom_simps w1_facts init_def p1_facts p0_facts)

text \<open>
  A message with an ampersand is read back in its serialised form: on page \<open>p1\<close>, after
  \<^verbatim>\<open>final('a & b', true)\<close> the accessor \<^verbatim>\<open>msg\<close> yields \<^verbatim>\<open>a &amp; b\<close>.
\<close>

lemma final_serialised:
  "msg 0 (snd (final 0 ''a & b'' True p1)) = Some ''a &amp; b''"
  by (simp add: step_simps init_def p0_facts p1_facts)

text \<open>
  On page \<open>q2\<close> the key of \<^verbatim>\<open>a"b\<close> is registered, and \<^verbatim>\<open>attach\<close> with \<^verbatim>\<open>overwrite\<close> on
  that element throws.
\<close>

lemma q2_registry: "registry q2 (''smart-'' @ quoted) = Some 0"
  by (simp add: q2_def q1_def quoted_def step_simps init_def p0_facts)

lemma q2_overwrite_throws: "attach 1 (btn quoted) True q2 = (Thrown, q2)"
proof -
  let ?t = "[\<lparr>t_id = Some quoted, t_left = ''10px'', t_bottom = ''20px''\<rparr>]"
  have k: "''smart-'' @ js_str (attr_id ?t) = ''smart-'' @ quoted"
    by (simp add: attr_id_def js_str_def)
  have h1: "attr_id ?t \<noteq> Some []"
    by (simp add: attr_id_def quoted_def)
  have h2: "registry q2 (''smart-'' @ js_str (attr_id ?t)) = Some 0"
    unfolding k by (rule q2_registry)
  have h3: "refused (''smart-'' @ js_str (attr_id ?t))"
    unfolding k by (simp add: quoted_def printable_def letter_def)
  from attach_overwrite_refused [OF h1 h2 h3] show ?thesis
    by (simp add: btn_def)
qed

lemmas page_facts = init_def p0_facts p1_facts p2_facts p3_facts p4_facts u2_facts u3_facts u4_facts
  r2_facts r3_facts w1_facts p3_dom u3_dom w1_dom

section \<open>Attaching to a page element\<close>

text \<open>
  Claim C1. For a target element whose identifier \<open>i\<close> is a non-empty string and whose key
  \<^verbatim>\<open>'smart-' + i\<close> is not registered, \<^verbatim>\<open>attach(target)\<close> without overwrite returns the
  status itself and the registry afterwards is the old one with the status stored under
  that key. A second \<^verbatim>\<open>attach\<close> without overwrite, by any status, to any target with the
  same identifier returns \<^verbatim>\<open>false\<close> and leaves the registry as the first call left it.
\<close>

theorem attach_once:
  assumes "attr_id tes = Some i" and "i \<noteq> []"
      and "registry st (''smart-'' @ i) = None"
      and "attr_id tes' = Some i"
  shows "fst (attach w (JQ tes) False st) = Widget w \<and>
         registry (snd (attach w (JQ tes) False st)) = (registry st)(''smart-'' @ i \<mapsto> w) \<and>
         fst (attach w' (JQ tes') False (snd (attach w (JQ tes) False st))) = RetFalse \<and>
         registry (snd (attach w' (JQ tes') False (snd (attach w (JQ tes) False st))))
           = registry (snd (attach w (JQ tes) False st))"
proof -
  obtain te r where tes: "tes = te # r"
    using assms(1) by (cases tes) (auto simp: attr_id_def)
  have k: "js_str (attr_id tes) = i" "js_str (attr_id tes') = i"
    using assms by (simp_all add: js_str_def)
  have ne: "attr_id (te # r) \<noteq> Some []" "attr_id tes' \<noteq> Some []"
    using assms tes by auto
  have free: "registry st (''smart-'' @ js_str (attr_id (te # r))) = None"
    using assms k tes by simp
  note first = attach_free [OF ne(1) free, of w False]
  have reg1: "registry (snd (attach w (JQ tes) False st)) = (registry st)(''smart-'' @ i \<mapsto> w)"
    using first k tes by simp
  have used: "registry (snd (attach w (JQ tes) False st)) (''smart-'' @ js_str (attr_id tes')) = Some w"
    using reg1 k by simp
  note second = attach_used [OF ne(2) used, of w']
  show ?thesis
    using first tes reg1 second by (simp add: log_error_sel)
qed

text \<open>
  C1 at a concrete page: on \<open>w1\<close> status 1 attaches to \<^verbatim>\<open>#btn2\<close>, then status 0 tries the
  same element.
\<close>

theorem attach_once_witness:
  "attr_id [\<lparr>t_id = Some ''btn2'', t_left = ''10px'', t_bottom = ''20px''\<rparr>] = Some ''btn2'' \<and>
   ''btn2'' \<noteq> [] \<and> registry w1 ''smart-btn2'' = None \<and>
   fst (attach 1 (btn ''btn2'') False w1) = Widget 1 \<and>
   registry (snd (attach 1 (btn ''btn2'') False w1)) = (registry w1)(''smart-btn2'' \<mapsto> 1) \<and>
   fst (attach 0 (btn ''btn2'') False (snd (attach 1 (btn ''btn2'') False w1))) = RetFalse \<and>
   registry (snd (attach 0 (btn ''btn2'') False (snd (attach 1 (btn ''btn2'') False w1))))
     = registry (snd (attach 1 (btn ''btn2'') False w1))"
proof -
  let ?t = "[\<lparr>t_id = Some ''btn2'', t_left = ''10px'', t_bottom = ''20px''\<rparr>]"
  have h1: "attr_id ?t = Some ''btn2''" by (simp add: attr_id_def)
  have h2: "''btn2'' \<noteq> []" by simp
  have h3: "registry w1 (''smart-'' @ ''btn2'') = None" by (simp add: page_facts)
  from attach_once [OF h1 h2 h3 h1, of 1 0] h1 h3 show ?thesis
    by (simp add: btn_def)
qed

text \<open>
  Claim C2 says that \<^verbatim>\<open>attach\<close> fails for an empty and for an absent identifier. The code
  tests \<^verbatim>\<open>target_id === ''\<close> only (\<open>attach_empty_id\<close> above is that branch). For an
  element without the attribute \<^verbatim>\<open>.attr('id')\<close> is \<^verbatim>\<open>undefined\<close>, the test is false, and the
  freshly built status 0 of page \<open>p0\<close> is returned and registered under
  \<^verbatim>\<open>smart-undefined\<close>.
\<close>

theorem attach_absent_id_registers:
  "fst (attach 0 no_id False p0) = Widget 0 \<and>
   registry (snd (attach 0 no_id False p0)) ''smart-undefined'' = Some 0"
  by (simp add: no_id_def step_simps page_facts)

text \<open>
  Claim C10. A target element without an \<^verbatim>\<open>id\<close> attribute behaves exactly like one whose
  identifier is the text \<^verbatim>\<open>undefined\<close>: with the key \<^verbatim>\<open>smart-undefined\<close> free the call returns
  the status and registers it under that key, whatever \<^verbatim>\<open>overwrite\<close> is, and a later
  \<^verbatim>\<open>attach\<close> without overwrite to any other element without an \<^verbatim>\<open>id\<close> finds the key in
  use: it returns \<^verbatim>\<open>false\<close> and leaves the registry as it is.
\<close>

theorem attach_without_id:
  assumes "t_id te = None" and "t_id te' = None"
      and "registry st ''smart-undefined'' = None"
  shows "attach w (JQ (te # r)) overwrite st
           = attach w (JQ (te\<lparr>t_id := Some ''undefined''\<rparr> # r)) overwrite st \<and>
         fst (attach w (JQ (te # r)) overwrite st) = Widget w \<and>
         registry (snd (attach w (JQ (te # r)) overwrite st))
           = (registry st)(''smart-undefined'' \<mapsto> w) \<and>
         fst (attach w' (JQ (te' # r')) False (snd (attach w (JQ (te # r)) overwrite st)))
           = RetFalse \<and>
         registry (snd (attach w' (JQ (te' # r')) False (snd (attach w (JQ (te # r)) overwrite st))))
           = registry (snd (attach w (JQ (te # r)) overwrite st))"
proof -
  have same: "attach w (JQ (te # r)) overwrite st
                = attach w (JQ (te\<lparr>t_id := Some ''undefined''\<rparr> # r)) overwrite st"
    using assms(1) by (simp add: attach_def attr_id_def js_str_def Let_def)
  have ne: "attr_id (te # r) \<noteq> Some []" "attr_id (te' # r') \<noteq> Some []"
    using assms by (simp_all add: attr_id_def)
  have k: "js_str (attr_id (te # r)) = ''undefined''" "js_str (attr_id (te' # r')) = ''undefined''"
    using assms by (simp_all add: attr_id_def js_str_def)
  have free: "registry st (''smart-'' @ js_str (attr_id (te # r))) = None"
    using assms(3) k by simp
  note first = attach_free [OF ne(1) free, of w overwrite]
  have reg1: "registry (snd (attach w (JQ (te # r)) overwrite st))
                = (registry st)(''smart-undefined'' \<mapsto> w)"
    using first k by simp
  have used: "registry (snd (attach w (JQ (te # r)) overwrite st))
                (''smart-'' @ js_str (attr_id (te' # r'))) = Some w"
    using reg1 k by simp
  note second = attach_used [OF ne(2) used, of w']
  have rest: "fst (attach w (JQ (te # r)) overwrite st) = Widget w \<and>
         registry (snd (attach w (JQ (te # r)) overwrite st))
           = (registry st)(''smart-undefined'' \<mapsto> w) \<and>
         fst (attach w' (JQ (te' # r')) False (snd (attach w (JQ (te # r)) overwrite st)))
           = RetFalse \<and>
         registry (snd (attach w' (JQ (te' # r')) False (snd (attach w (JQ (te # r)) overwrite st))))
           = registry (snd (attach w (JQ (te # r)) overwrite st))"
    using first reg1 second by (simp add: log_error_sel)
  from same rest show ?thesis by (rule conjI)
qed

text \<open>C10 at a concrete page: two elements without identifier, on page \<open>w1\<close>.\<close>

theorem attach_without_id_witness:
  "t_id \<lparr>t_id = None, t_left = ''10px'', t_bottom = ''20px''\<rparr> = None \<and>
   t_id \<lparr>t_id = None, t_left = ''30px'', t_bottom = ''40px''\<rparr> = None \<and>
   registry w1 ''smart-undefined'' = None \<and>
   fst (attach 1 no_id False w1) = Widget 1 \<and>
   registry (snd (attach 1 no_id False w1)) = (registry w1)(''smart-undefined'' \<mapsto> 1) \<and>
   fst (attach 0 (JQ [\<lparr>t_id = None, t_left = ''30px'', t_bottom = ''40px''\<rparr>]) False
          (snd (attach 1 no_id False w1))) = RetFalse"
proof -
  let ?a = "\<lparr>t_id = None, t_left = ''10px'', t_bottom = ''20px''\<rparr>"
  let ?b = "\<lparr>t_id = None, t_left = ''30px'', t_bottom = ''40px''\<rparr>"
  have h1: "t_id ?a = None" by simp
  have h2: "t_id ?b = None" by simp
  have h3: "registry w1 ''smart-undefined'' = None" by (simp add: page_facts)
  from attach_without_id [OF h1 h2 h3, of 1 "[]" False 0 "[]", THEN conjunct2] h3
  show ?thesis by (simp add: no_id_def)
qed

section \<open>Taking over a registered key\<close>




section \<open>The page-level status\<close>

text \<open>
  Claim C4. For a page-level target (omitted, or \<^verbatim>\<open>document.body\<close>) and any
  \<^verbatim>\<open>overwrite\<close>: when the page-level key is free, \<^verbatim>\<open>attach\<close> returns the status and the
  registry afterwards is the old one with the status under that key; when it is in use,
  \<^verbatim>\<open>attach\<close> returns \<^verbatim>\<open>false\<close> and the registry, the status objects, the elements and the
  body are unchanged. The registry is a function of the key, so the key never has two
  holders.
\<close>

theorem page_level_attach:
  assumes "target = Omitted \<or> target = DocBody"
  shows "if registry st sentinel = None
         then fst (attach w target overwrite st) = Widget w \<and>
              registry (snd (attach w target overwrite st)) = (registry st)(sentinel \<mapsto> w)
         else fst (attach w target overwrite st) = RetFalse \<and>
              registry (snd (attach w target overwrite st)) = registry st \<and>
              widgets (snd (attach w target overwrite st)) = widgets st \<and>
              elems (snd (attach w target overwrite st)) = elems st \<and>
              body (snd (attach w target overwrite st)) = body st"
proof (cases "registry st sentinel")
  case None
  then show ?thesis
    using attach_page_free [OF assms None, of w overwrite] by simp
next
  case (Some v)
  then show ?thesis
    using attach_page_used [OF assms Some, of w overwrite] by (simp add: log_error_sel)
qed

text \<open>
  C4 at a concrete page: on \<open>w1\<close> status 1 takes the page-level key; status 0 then asks
  for it with \<^verbatim>\<open>overwrite\<close> set and is refused.
\<close>

theorem page_level_attach_witness:
  "registry w1 sentinel = None \<and>
   fst (attach 1 Omitted False w1) = Widget 1 \<and>
   registry (snd (attach 1 Omitted False w1)) = (registry w1)(sentinel \<mapsto> 1) \<and>
   registry (snd (attach 1 Omitted False w1)) sentinel \<noteq> None \<and>
   fst (attach 0 DocBody True (snd (attach 1 Omitted False w1))) = RetFalse \<and>
   registry (snd (attach 0 DocBody True (snd (attach 1 Omitted False w1))))
     = registry (snd (attach 1 Omitted False w1)) \<and>
   widgets (snd (attach 0 DocBody True (snd (attach 1 Omitted False w1))))
     = widgets (snd (attach 1 Omitted False w1))"
proof -
  have free: "registry w1 sentinel = None" by (simp add: page_facts sentinel_def)
  have a: "fst (attach 1 Omitted False w1) = Widget 1 \<and>
           registry (snd (attach 1 Omitted False w1)) = (registry w1)(sentinel \<mapsto> 1)"
    using page_level_attach [of Omitted w1 1 False] free by simp
  then have used: "registry (snd (attach 1 Omitted False w1)) sentinel \<noteq> None" by simp
  from page_level_attach [of DocBody "snd (attach 1 Omitted False w1)" 0 True] used a free
  show ?thesis by simp
qed

section \<open>Destroying\<close>

text \<open>
  Claim C5 as stated fails for a status whose container has moved on. On page \<open>p3\<close>
  status 0 is registered under \<^verbatim>\<open>smart-btn1\<close> while its container carries
  \<^verbatim>\<open>smart-btn2\<close>; \<^verbatim>\<open>destroy()\<close> deletes the entry of \<^verbatim>\<open>smart-btn2\<close>, and an \<^verbatim>\<open>attach\<close>
  to \<^verbatim>\<open>#btn1\<close> without overwrite still returns \<^verbatim>\<open>false\<close>.
\<close>

theorem destroy_stale_key_counterexample:
  "registry p3 ''smart-btn1'' = Some 0 \<and>
   attr_data_id (wrapper (widgets p3 0)) p3 = Some ''smart-btn2'' \<and>
   registry (destroy 0 p3) ''smart-btn1'' = Some 0 \<and>
   fst (attach 1 (btn ''btn1'') False (destroy 0 p3)) = RetFalse"
  by (simp add: step_simps page_facts)

text \<open>
  Claim C5, amended. For a status registered under the key \<^verbatim>\<open>'smart-' + i\<close>, with \<open>i\<close>
  non-empty, whose container currently carries that key as its \<^verbatim>\<open>data-id\<close>:
  \<^verbatim>\<open>destroy()\<close> frees the key, and an \<^verbatim>\<open>attach\<close> without overwrite, by any status, to
  a target with identifier \<open>i\<close> then returns that status and registers it under the key.
\<close>

theorem destroy_then_attach:
  assumes "registry st (''smart-'' @ i) = Some w"
      and "attr_data_id (wrapper (widgets st w)) st = Some (''smart-'' @ i)"
      and "attr_id tes = Some i" and "i \<noteq> []"
  shows "registry (destroy w st) (''smart-'' @ i) = None \<and>
         fst (attach w' (JQ tes) False (destroy w st)) = Widget w' \<and>
         registry (snd (attach w' (JQ tes) False (destroy w st)))
           = (registry (destroy w st))(''smart-'' @ i \<mapsto> w')"
proof -
  have gone: "registry (destroy w st) (''smart-'' @ i) = None"
    using assms(2) by (simp add: destroy_registry js_str_def)
  obtain te r where tes: "tes = te # r"
    using assms(3) by (cases tes) (auto simp: attr_id_def)
  have k: "js_str (attr_id (te # r)) = i"
    using assms(3) tes by (simp add: js_str_def)
  have ne: "attr_id (te # r) \<noteq> Some []"
    using assms(3,4) tes by auto
  have free: "registry (destroy w st) (''smart-'' @ js_str (attr_id (te # r))) = None"
    using gone k by simp
  from attach_free [OF ne free, of w' False] gone k tes
  show ?thesis by simp
qed

text \<open>C5 amended, at a concrete page: status 0 of page \<open>p1\<close> and \<^verbatim>\<open>#btn1\<close>.\<close>

theorem destroy_then_attach_witness:
  "registry p1 (''smart-'' @ ''btn1'') = Some 0 \<and>
   attr_data_id (wrapper (widgets p1 0)) p1 = Some (''smart-'' @ ''btn1'') \<and>
   attr_id [\<lparr>t_id = Some ''btn1'', t_left = ''10px'', t_bottom = ''20px''\<rparr>] = Some ''btn1'' \<and>
   ''btn1'' \<noteq> [] \<and>
   registry (destroy 0 p1) ''smart-btn1'' = None \<and>
   fst (attach 0 (btn ''btn1'') False (destroy 0 p1)) = Widget 0 \<and>
   registry (snd (attach 0 (btn ''btn1'') False (destroy 0 p1)))
     = (registry (destroy 0 p1))(''smart-btn1'' \<mapsto> 0)"
proof -
  let ?t = "[\<lparr>t_id = Some ''btn1'', t_left = ''10px'', t_bottom = ''20px''\<rparr>]"
  have h1: "registry p1 (''smart-'' @ ''btn1'') = Some 0" by (simp add: page_facts)
  have h2: "attr_data_id (wrapper (widgets p1 0)) p1 = Some (''smart-'' @ ''btn1'')"
    by (simp add: attr_data_id_def page_facts)
  have h3: "attr_id ?t = Some ''btn1''" by (simp add: attr_id_def)
  have h4: "''btn1'' \<noteq> []" by simp
  from destroy_then_attach [OF h1 h2 h3 h4, of 0] h1 h2 h3 show ?thesis
    by (simp add: btn_def)
qed

text \<open>
  Claim C9. \<^verbatim>\<open>destroy()\<close> deletes the registry entry whose key is the \<^verbatim>\<open>data-id\<close> the
  container of the status carries at that moment. So let status \<open>A\<close> refer to the container
  \<open>a\<close>, which carries the registered key \<open>K\<close>, and let \<^verbatim>\<open>B.attach(target, true)\<close> of another
  status \<open>B\<close>, on a target of key \<open>K\<close>, have returned \<open>B\<close> and re-pointed the container
  reference of \<open>B\<close> to \<open>a\<close>, an element of the document. Then \<open>A\<close> still refers to \<open>a\<close> and
  \<open>K\<close> maps to \<open>B\<close>. After \<^verbatim>\<open>A.destroy()\<close> the element \<open>a\<close> is no element of the document
  and \<open>K\<close> is not registered.
\<close>

theorem destroy_superseded:
  assumes "wrapper (widgets st A) = [a]"
      and "data_id (elems st a) = Some K"
      and "K = ''smart-'' @ js_str (attr_id tes)" and "attr_id tes \<noteq> Some []"
      and "registry st K = Some v" and "A \<noteq> B"
      and "fst (attach B (JQ tes) True st) = Widget B"
      and "a \<in> set (wrapper (widgets (snd (attach B (JQ tes) True st)) B))"
      and "a \<in> set (document (snd (attach B (JQ tes) True st)))"
  shows "registry (destroy w st0)
           = (registry st0)(js_str (attr_data_id (wrapper (widgets st0 w)) st0) := None) \<and>
         wrapper (widgets (snd (attach B (JQ tes) True st)) A) = [a] \<and>
         registry (snd (attach B (JQ tes) True st)) K = Some B \<and>
         a \<notin> set (document (destroy A (snd (attach B (JQ tes) True st)))) \<and>
         registry (destroy A (snd (attach B (JQ tes) True st))) K = None"
proof -
  let ?st1 = "snd (attach B (JQ tes) True st)"
  have used: "registry st (''smart-'' @ js_str (attr_id tes)) = Some v"
    using assms(3,5) by simp
  note ov = attach_overwrite [OF assms(4) used, of B, folded assms(3)]
  obtain ws where ws: "select_div K st = Some ws"
    using assms(7) by (cases "select_div K st") (simp_all add: ov)
  note st1 = ov [unfolded ws option.case]
  have wa: "wrapper (widgets ?st1 A) = [a]"
    using assms(1,6) by (simp add: st1 html_set_sel)
  have da: "data_id (elems ?st1 a) = Some K"
    using assms(2) by (simp add: st1 html_set_keeps)
  have rb: "registry ?st1 K = Some B"
    by (simp add: st1)
  have out: "a \<notin> set (document (destroy A ?st1))"
    using destroy_not_in_document [of a ?st1 A] wa by simp
  have reg: "registry (destroy A ?st1) K = None"
    using wa da by (simp add: destroy_registry attr_data_id_def js_str_def)
  have d0: "registry (destroy w st0)
           = (registry st0)(js_str (attr_data_id (wrapper (widgets st0 w)) st0) := None)"
    by (simp add: destroy_registry)
  from d0 wa rb out reg show ?thesis
    by (intro conjI)
qed

text \<open>
  C9 at a concrete page: on \<open>w1\<close> status 1 takes over \<^verbatim>\<open>#btn1\<close> from status 0, and status
  0 is destroyed.
\<close>

theorem destroy_superseded_witness:
  "wrapper (widgets w1 0) = [0] \<and>
   data_id (elems w1 0) = Some ''smart-btn1'' \<and>
   registry w1 ''smart-btn1'' = Some 0 \<and> (0::nat) \<noteq> 1 \<and>
   fst (attach 1 (btn ''btn1'') True w1) = Widget 1 \<and>
   0 \<in> set (wrapper (widgets (snd (attach 1 (btn ''btn1'') True w1)) 1)) \<and>
   0 \<in> set (document (snd (attach 1 (btn ''btn1'') True w1))) \<and>
   registry (destroy 1 w1) = (registry w1)(''smart-'' := None) \<and>
   wrapper (widgets (snd (attach 1 (btn ''btn1'') True w1)) 0) = [0] \<and>
   registry (snd (attach 1 (btn ''btn1'') True w1)) ''smart-btn1'' = Some 1 \<and>
   0 \<notin> set (document (destroy 0 (snd (attach 1 (btn ''btn1'') True w1)))) \<and>
   registry (destroy 0 (snd (attach 1 (btn ''btn1'') True w1))) ''smart-btn1'' = None"
proof -
  let ?t = "[\<lparr>t_id = Some ''btn1'', t_left = ''10px'', t_bottom = ''20px''\<rparr>]"
  let ?st1 = "snd (attach 1 (JQ ?t) True w1)"
  have h1: "wrapper (widgets w1 0) = [0]" by (simp add: page_facts)
  have h2: "data_id (elems w1 0) = Some ''smart-btn1''" by (simp add: page_facts)
  have h3: "''smart-btn1'' = ''smart-'' @ js_str (attr_id ?t)"
    by (simp add: attr_id_def js_str_def)
  have h4: "attr_id ?t \<noteq> Some []" by (simp add: attr_id_def)
  have h5: "registry w1 ''smart-btn1'' = Some 0" by (simp add: page_facts)
  have h6: "(0::nat) \<noteq> 1" by simp
  have h7: "fst (attach 1 (JQ ?t) True w1) = Widget 1"
    using h5 by (simp add: attach_overwrite [OF h4] attr_id_def js_str_def page_facts)
  have h8: "0 \<in> set (wrapper (widgets ?st1 1))"
    using h5 by (simp add: attach_overwrite [OF h4] attr_id_def js_str_def page_facts html_set_sel)
  have "document ?st1 = document w1"
    using h5
    by (intro document_parents)
       (simp_all add: attach_overwrite [OF h4] attr_id_def js_str_def page_facts html_set_sel
          html_set_keeps)
  moreover have "0 \<in> set (document w1)"
    by (simp add: dom_simps page_facts)
  ultimately have h9: "0 \<in> set (document ?st1)"
    by simp
  have k: "js_str (attr_data_id (wrapper (widgets w1 1)) w1) = ''smart-''"
    by (simp add: js_str_def attr_data_id_def page_facts)
  from destroy_superseded [OF h1 h2 h3 h4 h5 h6 h7 h8 h9, of 1 w1] h1 h2 h5 h7 h8 h9 k
  show ?thesis by (simp add: btn_def)
qed

section \<open>Final state, hiding and dismissing\<close>

text \<open>
  Claim C6. \<^verbatim>\<open>final\<close> serves its description, \<^emph>\<open>a contextual icon replaces the spinner\<close>,
  through the spinner reference of the status. After \<^verbatim>\<open>attach(target, true)\<close> that reference
  is what \<^verbatim>\<open>find('span.fa-spinner')\<close> matched, and an indicator that an earlier \<^verbatim>\<open>final\<close>
  has turned into an icon no longer has that class. On page \<open>u4\<close> status 1 has taken over
  the container of \<^verbatim>\<open>#btn1\<close>, whose status had failed with \<^verbatim>\<open>Upload failed\<close>: status 1 is
  registered under the key and refers to the container, element 0, and its spinner
  reference is empty. \<^verbatim>\<open>final('Done', true)\<close> returns the status and sets the message
  \<^verbatim>\<open>Done\<close>, and the indicator of the container, element 1, keeps the warning triangle and
  gets no check mark.
\<close>

theorem final_after_overwrite_keeps_warning:
  "find_status ''smart-btn1'' u4 = Some 1 \<and>
   wrapper (widgets u4 1) = [0] \<and>
   spinner (widgets u4 1) = [] \<and>
   parent (elems u4 1) = Some 0 \<and>
   classes (elems u4 1) = [''fa'', ''fa-exclamation-triangle''] \<and>
   fst (final 1 ''Done'' True u4) = Widget 1 \<and>
   msg 1 (snd (final 1 ''Done'' True u4)) = Some ''Done'' \<and>
   parent (elems (snd (final 1 ''Done'' True u4)) 1) = Some 0 \<and>
   classes (elems (snd (final 1 ''Done'' True u4)) 1) = [''fa'', ''fa-exclamation-triangle'']"
  by (simp add: step_simps page_facts find_status_def)

text \<open>
  Claim C7. \<^verbatim>\<open>hide(d)\<close> returns the status and changes neither the registry, nor the
  status objects, nor the body, nor the message, nor the classes, content or
  \<^verbatim>\<open>data-id\<close> of any element. It requests one fade-out on each element of the container
  collection, of \<open>d\<close> milliseconds, and of 1500 when \<open>d\<close> is not given (or is 0).
\<close>

theorem hide_frame:
  "fst (hide w d st) = Widget w \<and>
   registry (snd (hide w d st)) = registry st \<and>
   widgets (snd (hide w d st)) = widgets st \<and>
   body (snd (hide w d st)) = body st \<and>
   msg w (snd (hide w d st)) = msg w st \<and>
   (\<forall>e. classes (elems (snd (hide w d st)) e) = classes (elems st e) \<and>
        html (elems (snd (hide w d st)) e) = html (elems st e) \<and>
        data_id (elems (snd (hide w d st)) e) = data_id (elems st e)) \<and>
   (\<forall>e. fx_log (elems (snd (hide w d st)) e) =
        (if e \<in> set (wrapper (widgets st w))
         then fx_log (elems st e) @ [FadeOut (Millis (hide_duration d))]
         else fx_log (elems st e))) \<and>
   hide_duration None = 1500"
  by (simp add: hide_def fade_sel msg_def html_get_def hide_duration_def split: list.splits)

text \<open>C7 at a concrete page: status 0 of page \<open>p1\<close>, without and with a duration.\<close>

theorem hide_frame_witness:
  "fst (hide 0 None p1) = Widget 0 \<and>
   registry (snd (hide 0 None p1)) = registry p1 \<and>
   msg 0 (snd (hide 0 None p1)) = Some ''Uploading'' \<and>
   classes (elems (snd (hide 0 None p1)) 1) = [''fa'', ''fa-spinner'', ''fa-spin''] \<and>
   fx_log (elems (snd (hide 0 None p1)) 0) = [FadeOut (Millis 1500)] \<and>
   fx_log (elems (snd (hide 0 (Some 300) p1)) 0) = [FadeOut (Millis 300)]"
proof -
  have w: "wrapper (widgets p1 0) = [0]" by (simp add: page_facts)
  have l: "fx_log (elems p1 0) = []" by (simp add: page_facts)
  have m: "msg 0 p1 = Some ''Uploading''" by (simp add: msg_def html_get_def page_facts)
  have c: "classes (elems p1 1) = [''fa'', ''fa-spinner'', ''fa-spin'']"
    by (simp add: page_facts)
  from hide_frame [of 0 None p1] hide_frame [of 0 "Some 300" p1] w l m c
  show ?thesis by (simp add: hide_duration_def)
qed

text \<open>
  Claim C8 as stated fails after \<^verbatim>\<open>destroy()\<close>: jQuery's \<^verbatim>\<open>.remove()\<close> unbinds the handlers
  of the removed container and of its descendants. On page \<open>r3\<close> status 0 is attached again
  (registered, container in the body), its close control is element 3 inside container 0,
  and a click on it changes nothing: no fade-out is requested on the container.
\<close>

theorem dismiss_after_destroy_counterexample:
  "find_status ''smart-btn1'' r3 = Some 0 \<and>
   body r3 = [0] \<and> wrapper (widgets r3 0) = [0] \<and> close_btn (widgets r3 0) = [3] \<and>
   parent (elems r3 3) = Some 0 \<and>
   \<not> on_click (elems r3 3) \<and>
   click 3 r3 = r3 \<and>
   fx_log (elems (click 3 r3) 0) = []"
  by (simp add: step_simps page_facts find_status_def)

text \<open>
  Claim C8, amended. For a status whose close control still has the click handler of
  the constructor and sits inside the container of the status: activating the control
  requests a slow fade-out on that container and changes neither the registry, nor the
  status objects, nor the elements of the document, nor the message of the status, nor
  the content or classes of any element. In particular the key stays registered and the
  container stays in the document, unlike after \<^verbatim>\<open>destroy()\<close>.
\<close>

theorem dismiss_fades_only:
  assumes "e \<in> set (close_btn (widgets st w))"
      and "on_click (elems st e)"
      and "parent (elems st e) = Some p" and "p \<in> set (wrapper (widgets st w))"
  shows "fx_log (elems (click e st) p) = fx_log (elems st p) @ [FadeOut Slow] \<and>
         registry (click e st) = registry st \<and>
         widgets (click e st) = widgets st \<and>
         document (click e st) = document st \<and>
         msg w (click e st) = msg w st \<and>
         (\<forall>x. html (elems (click e st) x) = html (elems st x) \<and>
              classes (elems (click e st) x) = classes (elems st x))"
  using assms
  by (simp add: click_sel click_document msg_def html_get_def split: list.splits)
     (simp add: click_def fade_sel)

text \<open>C8 amended, at a concrete page: the close control of status 0 on page \<open>p1\<close>.\<close>

theorem dismiss_fades_only_witness:
  "3 \<in> set (close_btn (widgets p1 0)) \<and> on_click (elems p1 3) \<and>
   parent (elems p1 3) = Some 0 \<and> 0 \<in> set (wrapper (widgets p1 0)) \<and>
   fx_log (elems (click 3 p1) 0) = [FadeOut Slow] \<and>
   registry (click 3 p1) = registry p1 \<and>
   widgets (click 3 p1) = widgets p1 \<and>
   document (click 3 p1) = document p1 \<and>
   msg 0 (click 3 p1) = msg 0 p1 \<and>
   html (elems (click 3 p1) 2) = html (elems p1 2) \<and>
   classes (elems (click 3 p1) 1) = classes (elems p1 1)"
proof -
  have h1: "3 \<in> set (close_btn (widgets p1 0))" by (simp add: page_facts)
  have h2: "on_click (elems p1 3)" by (simp add: page_facts)
  have h3: "parent (elems p1 3) = Some 0" by (simp add: page_facts)
  have h4: "0 \<in> set (wrapper (widgets p1 0))" by (simp add: page_facts)
  have l: "fx_log (elems p1 0) = []" by (simp add: page_facts)
  from dismiss_fades_only [OF h1 h2 h3 h4] h1 h2 h3 h4 l show ?thesis by simp
qed

end
